theory Spec2Isabelle
  imports Main "HOL-Library.Word"
begin

unbundle bit_operations_syntax

section \<open>The filesystem facade of the XRootD client (xrootd/client/filesystem.go)\<close>

text \<open>
  The facade is the Go type \<^verbatim>\<open>fileSystem\<close> of package \<^verbatim>\<open>client\<close>. Each of its
  eleven methods builds a request value, hands it to one of the two primitives of the
  shared \<^verbatim>\<open>*Client\<close> (\<^verbatim>\<open>Send\<close> or \<^verbatim>\<open>call\<close>) and maps the answer to its return
  values. The methods are embedded as HOL functions that pass the state explicitly:
  the receiver \<^verbatim>\<open>*fs\<close> and the world behind the client are arguments, and both come
  back beside the Go return values.

  A Go \<^verbatim>\<open>(T, error)\<close> result is the pair \<open>'a \<times> error option\<close>: Go always returns both
  slots, and \<open>None\<close> is the nil error. A slice is \<open>'a list option\<close>, with \<open>None\<close> the nil
  slice; an interface value that may be nil (\<^verbatim>\<open>xrdfs.File\<close>) is an \<open>option\<close> as well.
\<close>

subsection \<open>Package xrdfs: flags and entities\<close>

text \<open>
  Modelled from the spec: the declarations of package \<^verbatim>\<open>xrdfs\<close> (\<^verbatim>\<open>OpenMode\<close>,
  \<^verbatim>\<open>OpenOptions\<close>, \<^verbatim>\<open>EntryStat\<close>, \<^verbatim>\<open>VirtualFSStat\<close>, the file handle and the
  compression descriptor) are not under src/. Section 3 of the spec gives the two flag
  types as integer-backed bit-sets and lists what the entities hold; the widths are a
  choice of this model, and the facade only ever carries these values whole.
\<close>

type_synonym OpenMode = "16 word"

type_synonym OpenOptions = "16 word"

type_synonym FileHandle = "8 word list"

record EntryStat =
  EntryName :: string
  EntrySize :: "64 word"
  Mtime :: "64 word"
  EntryMode :: "16 word"
  Flags :: "32 word"

record VirtualFSStat =
  Capacity :: "64 word"
  Usage :: "64 word"

record FileCompression =
  Algorithm :: "8 word list"
  BlockSize :: "32 word"

text \<open>The Go zero values \<^verbatim>\<open>xrdfs.EntryStat{}\<close> and \<^verbatim>\<open>xrdfs.VirtualFSStat{}\<close>.\<close>

definition EntryStat_zero :: EntryStat where
  "EntryStat_zero = \<lparr>EntryName = [], EntrySize = 0, Mtime = 0, EntryMode = 0, Flags = 0\<rparr>"

definition VirtualFSStat_zero :: VirtualFSStat where
  "VirtualFSStat_zero = \<lparr>Capacity = 0, Usage = 0\<rparr>"

definition FileCompression_zero :: FileCompression where
  "FileCompression_zero = \<lparr>Algorithm = [], BlockSize = 0\<rparr>"

text \<open>
  Modelled from the spec: Go's \<^verbatim>\<open>error\<close> values are made by the transport and by
  package \<^verbatim>\<open>context\<close>, neither under src/. The constructors are the taxonomy of
  section 7 of the spec: transport-level errors first, then protocol-level ones.
\<close>

datatype error =
    ConnectionLost
  | Canceled
  | DeadlineExceeded
  | NotFound
  | NotADirectory
  | NotAFile
  | PermissionDenied
  | NotEmpty
  | Conflict
  | HandleInvalid

subsection \<open>Packages xrdproto/*: requests and responses\<close>

text \<open>
  The request structs are declared in the packages \<^verbatim>\<open>xrdproto/rm\<close>, \<^verbatim>\<open>truncate\<close>,
  \<^verbatim>\<open>stat\<close>, \<^verbatim>\<open>mkdir\<close>, \<^verbatim>\<open>rmdir\<close>, \<^verbatim>\<open>mv\<close> and \<^verbatim>\<open>chmod\<close>, not under src/; their
  fields are the ones the keyed composite literals of filesystem.go name. A field a
  literal leaves out has Go's zero value. \<^verbatim>\<open>size\<close> is an \<^verbatim>\<open>int64\<close> in the source.
\<close>

record rm_Request =
  Path :: string

record truncate_Request =
  Path :: string
  Size :: "64 word"

record stat_Request =
  Path :: string
  Options :: "8 word"

record mkdir_Request =
  Path :: string
  Mode :: OpenMode
  Options :: "8 word"

record rmdir_Request =
  Path :: string

record mv_Request =
  OldPath :: string
  NewPath :: string

record chmod_Request =
  Path :: string
  Mode :: OpenMode

text \<open>
  Modelled from the spec: the constants \<^verbatim>\<open>mkdir.OptionsMakePath\<close> and
  \<^verbatim>\<open>stat.OptionsVFS\<close> are not under src/. Sections 4.4 and 4.5 of the spec call each of
  them one option bit of its request; which bit is not stated, and bit 0 is taken here.
\<close>

definition mkdir_OptionsMakePath :: "8 word" where
  "mkdir_OptionsMakePath = 1"

definition stat_OptionsVFS :: "8 word" where
  "stat_OptionsVFS = 1"

text \<open>
  Modelled from the spec: \<^verbatim>\<open>dirlist.NewRequest\<close> and \<^verbatim>\<open>open.NewRequest\<close> and the
  structs they return are not under src/. Section 4.1 of the spec has the listing request
  made for \<^verbatim>\<open>path\<close>; section 4.2 has the open request carry the caller-supplied mode and
  options bit-sets verbatim.
\<close>

record dirlist_Request =
  Path :: string

record open_Request =
  Path :: string
  Mode :: OpenMode
  Options :: OpenOptions

definition dirlist_NewRequest :: "string \<Rightarrow> dirlist_Request" where
  "dirlist_NewRequest path = \<lparr>dirlist_Request.Path = path\<rparr>"

definition open_NewRequest :: "string \<Rightarrow> OpenMode \<Rightarrow> OpenOptions \<Rightarrow> open_Request" where
  "open_NewRequest path mode options =
     \<lparr>open_Request.Path = path, open_Request.Mode = mode, open_Request.Options = options\<rparr>"

text \<open>
  The response structs, with the fields filesystem.go reads: \<^verbatim>\<open>resp.Entries\<close>,
  \<^verbatim>\<open>resp.FileHandle\<close>, \<^verbatim>\<open>resp.Compression\<close>, \<^verbatim>\<open>resp.Stat\<close>, \<^verbatim>\<open>resp.EntryStat\<close> and
  \<^verbatim>\<open>resp.VirtualFSStat\<close>. \<^verbatim>\<open>var resp T\<close> declares the zero value of \<^verbatim>\<open>T\<close>.
\<close>

record dirlist_Response =
  Entries :: "EntryStat list option"

record open_Response =
  FileHandle :: FileHandle
  Compression :: FileCompression
  Stat :: EntryStat

record stat_DefaultResponse =
  EntryStat :: EntryStat

record stat_VirtualFSResponse =
  VirtualFSStat :: VirtualFSStat

definition dirlist_Response_zero :: dirlist_Response where
  "dirlist_Response_zero = \<lparr>Entries = None\<rparr>"

definition open_Response_zero :: open_Response where
  "open_Response_zero =
     \<lparr>FileHandle = [], Compression = FileCompression_zero, open_Response.Stat = EntryStat_zero\<rparr>"

definition stat_DefaultResponse_zero :: stat_DefaultResponse where
  "stat_DefaultResponse_zero = \<lparr>stat_DefaultResponse.EntryStat = EntryStat_zero\<rparr>"

definition stat_VirtualFSResponse_zero :: stat_VirtualFSResponse where
  "stat_VirtualFSResponse_zero = \<lparr>stat_VirtualFSResponse.VirtualFSStat = VirtualFSStat_zero\<rparr>"

text \<open>
  \<^verbatim>\<open>Send\<close> and \<^verbatim>\<open>call\<close> take any \<^verbatim>\<open>xrdproto.Request\<close>: the interface is the sum of the
  request types the facade builds.
\<close>

datatype request =
    Req_dirlist dirlist_Request
  | Req_open open_Request
  | Req_rm rm_Request
  | Req_truncate truncate_Request
  | Req_stat stat_Request
  | Req_mkdir mkdir_Request
  | Req_rmdir rmdir_Request
  | Req_mv mv_Request
  | Req_chmod chmod_Request

subsection \<open>The client and its two primitives\<close>

text \<open>
  \<^verbatim>\<open>fileSystem\<close> holds a \<^verbatim>\<open>*Client\<close>: the address of the shared client. The client
  itself, its connection and the server behind it are the world \<open>'w\<close>, which only the
  primitives read and change.
\<close>

type_synonym Client = nat

type_synonym genericResponse = "8 word list"

text \<open>
  The methods \<^verbatim>\<open>(*Client).call\<close> and \<^verbatim>\<open>(*Client).Send\<close> are not under src/: they are
  the transport of section 6 of the spec, an external collaborator, and every function
  below takes them as the parameter \<open>tr\<close>. \<^verbatim>\<open>call(ctx, req)\<close> returns a payload and an
  error. \<^verbatim>\<open>Send(ctx, &resp, req)\<close> decodes into the sink \<^verbatim>\<open>resp\<close> and returns an error:
  the primitive gets the sink as the caller declared it and gives back what the sink
  holds afterwards, on failure too. Go types the sink (\<^verbatim>\<open>xrdproto.Response\<close> is an
  interface, and the facade passes pointers to four struct types), so the record has one
  \<open>Send\<close> for each of the four sink types. \<open>'ctx\<close> is \<^verbatim>\<open>context.Context\<close>, which the
  facade never inspects.
\<close>

record ('ctx, 'w) transport =
  call :: "Client \<Rightarrow> 'ctx \<Rightarrow> request \<Rightarrow> 'w \<Rightarrow> (genericResponse \<times> error option) \<times> 'w"
  Send_dirlist :: "Client \<Rightarrow> 'ctx \<Rightarrow> dirlist_Response \<Rightarrow> request \<Rightarrow> 'w
    \<Rightarrow> (dirlist_Response \<times> error option) \<times> 'w"
  Send_open :: "Client \<Rightarrow> 'ctx \<Rightarrow> open_Response \<Rightarrow> request \<Rightarrow> 'w
    \<Rightarrow> (open_Response \<times> error option) \<times> 'w"
  Send_stat :: "Client \<Rightarrow> 'ctx \<Rightarrow> stat_DefaultResponse \<Rightarrow> request \<Rightarrow> 'w
    \<Rightarrow> (stat_DefaultResponse \<times> error option) \<times> 'w"
  Send_vfs :: "Client \<Rightarrow> 'ctx \<Rightarrow> stat_VirtualFSResponse \<Rightarrow> request \<Rightarrow> 'w
    \<Rightarrow> (stat_VirtualFSResponse \<times> error option) \<times> 'w"

subsection \<open>fileSystem and file\<close>

text \<open>\<^verbatim>\<open>type fileSystem struct { c *Client }\<close>\<close>

record fileSystem =
  c :: Client

text \<open>\<^verbatim>\<open>func (cli *Client) FS() xrdfs.FileSystem { return &fileSystem{cli} }\<close>\<close>

definition FS :: "Client \<Rightarrow> fileSystem" where
  "FS cli = \<lparr>c = cli\<rparr>"

text \<open>
  Modelled from the spec: the struct \<^verbatim>\<open>file\<close> is declared in another file of package
  \<^verbatim>\<open>client\<close>, not under src/. \<^verbatim>\<open>Open\<close> fills it with the positional literal
  \<^verbatim>\<open>&file{fs, resp.FileHandle, resp.Compression, resp.Stat}\<close>; section 3 of the spec
  names the four parts: the owning FileSystem, the handle, the compression descriptor and
  the stat snapshot. The record is \<open>file_rec\<close>, since Isabelle reserves the word itself.
\<close>

record file_rec =
  file_fs :: fileSystem
  file_handle :: FileHandle
  file_compression :: FileCompression
  file_info :: EntryStat

subsection \<open>The methods of fileSystem\<close>

text \<open>
  Every method returns its Go results, then the receiver \<^verbatim>\<open>*fs\<close> as the method leaves
  it, then the world. The receiver is a \<^verbatim>\<open>fileSystem\<close> value, that is a non-nil
  \<^verbatim>\<open>*fileSystem\<close>, which is all \<^verbatim>\<open>FS\<close> ever returns; the primitives are taken to
  return, as section 6 of the spec describes them.
\<close>

definition Dirlist :: "('ctx, 'w) transport \<Rightarrow> fileSystem \<Rightarrow> 'ctx \<Rightarrow> string \<Rightarrow> 'w
    \<Rightarrow> (EntryStat list option \<times> error option) \<times> fileSystem \<times> 'w" where
  "Dirlist tr fs ctx path w =
     (let resp = dirlist_Response_zero;
          ((resp, err), w) = Send_dirlist tr (c fs) ctx resp (Req_dirlist (dirlist_NewRequest path)) w
      in if err \<noteq> None then ((None, err), fs, w)
         else ((Entries resp, err), fs, w))"

definition Open :: "('ctx, 'w) transport \<Rightarrow> fileSystem \<Rightarrow> 'ctx \<Rightarrow> string \<Rightarrow> OpenMode \<Rightarrow> OpenOptions \<Rightarrow> 'w
    \<Rightarrow> (file_rec option \<times> error option) \<times> fileSystem \<times> 'w" where
  "Open tr fs ctx path mode options w =
     (let resp = open_Response_zero;
          ((resp, err), w) = Send_open tr (c fs) ctx resp (Req_open (open_NewRequest path mode options)) w
      in if err \<noteq> None then ((None, err), fs, w)
         else ((Some \<lparr>file_fs = fs, file_handle = FileHandle resp,
                      file_compression = Compression resp,
                      file_info = open_Response.Stat resp\<rparr>, None), fs, w))"

definition RemoveFile :: "('ctx, 'w) transport \<Rightarrow> fileSystem \<Rightarrow> 'ctx \<Rightarrow> string \<Rightarrow> 'w
    \<Rightarrow> error option \<times> fileSystem \<times> 'w" where
  "RemoveFile tr fs ctx path w =
     (let ((_, err), w) = call tr (c fs) ctx (Req_rm \<lparr>rm_Request.Path = path\<rparr>) w
      in (err, fs, w))"

definition Truncate :: "('ctx, 'w) transport \<Rightarrow> fileSystem \<Rightarrow> 'ctx \<Rightarrow> string \<Rightarrow> 64 word \<Rightarrow> 'w
    \<Rightarrow> error option \<times> fileSystem \<times> 'w" where
  "Truncate tr fs ctx path sz w =
     (let ((_, err), w) = call tr (c fs) ctx
            (Req_truncate \<lparr>truncate_Request.Path = path, Size = sz\<rparr>) w
      in (err, fs, w))"

definition Stat :: "('ctx, 'w) transport \<Rightarrow> fileSystem \<Rightarrow> 'ctx \<Rightarrow> string \<Rightarrow> 'w
    \<Rightarrow> (EntryStat \<times> error option) \<times> fileSystem \<times> 'w" where
  "Stat tr fs ctx path w =
     (let resp = stat_DefaultResponse_zero;
          ((resp, err), w) = Send_stat tr (c fs) ctx resp
            (Req_stat \<lparr>stat_Request.Path = path, stat_Request.Options = 0\<rparr>) w
      in if err \<noteq> None then ((EntryStat_zero, err), fs, w)
         else ((stat_DefaultResponse.EntryStat resp, None), fs, w))"

definition VirtualStat :: "('ctx, 'w) transport \<Rightarrow> fileSystem \<Rightarrow> 'ctx \<Rightarrow> string \<Rightarrow> 'w
    \<Rightarrow> (VirtualFSStat \<times> error option) \<times> fileSystem \<times> 'w" where
  "VirtualStat tr fs ctx path w =
     (let resp = stat_VirtualFSResponse_zero;
          ((resp, err), w) = Send_vfs tr (c fs) ctx resp
            (Req_stat \<lparr>stat_Request.Path = path, stat_Request.Options = stat_OptionsVFS\<rparr>) w
      in if err \<noteq> None then ((VirtualFSStat_zero, err), fs, w)
         else ((stat_VirtualFSResponse.VirtualFSStat resp, None), fs, w))"

definition Mkdir :: "('ctx, 'w) transport \<Rightarrow> fileSystem \<Rightarrow> 'ctx \<Rightarrow> string \<Rightarrow> OpenMode \<Rightarrow> 'w
    \<Rightarrow> error option \<times> fileSystem \<times> 'w" where
  "Mkdir tr fs ctx path perm w =
     (let ((_, err), w) = call tr (c fs) ctx
            (Req_mkdir \<lparr>mkdir_Request.Path = path, mkdir_Request.Mode = perm,
                        mkdir_Request.Options = 0\<rparr>) w
      in (err, fs, w))"

definition MkdirAll :: "('ctx, 'w) transport \<Rightarrow> fileSystem \<Rightarrow> 'ctx \<Rightarrow> string \<Rightarrow> OpenMode \<Rightarrow> 'w
    \<Rightarrow> error option \<times> fileSystem \<times> 'w" where
  "MkdirAll tr fs ctx path perm w =
     (let ((_, err), w) = call tr (c fs) ctx
            (Req_mkdir \<lparr>mkdir_Request.Path = path, mkdir_Request.Mode = perm,
                        mkdir_Request.Options = mkdir_OptionsMakePath\<rparr>) w
      in (err, fs, w))"

definition RemoveDir :: "('ctx, 'w) transport \<Rightarrow> fileSystem \<Rightarrow> 'ctx \<Rightarrow> string \<Rightarrow> 'w
    \<Rightarrow> error option \<times> fileSystem \<times> 'w" where
  "RemoveDir tr fs ctx path w =
     (let ((_, err), w) = call tr (c fs) ctx (Req_rmdir \<lparr>rmdir_Request.Path = path\<rparr>) w
      in (err, fs, w))"

definition Rename :: "('ctx, 'w) transport \<Rightarrow> fileSystem \<Rightarrow> 'ctx \<Rightarrow> string \<Rightarrow> string \<Rightarrow> 'w
    \<Rightarrow> error option \<times> fileSystem \<times> 'w" where
  "Rename tr fs ctx oldpath newpath w =
     (let ((_, err), w) = call tr (c fs) ctx (Req_mv \<lparr>OldPath = oldpath, NewPath = newpath\<rparr>) w
      in (err, fs, w))"

definition Chmod :: "('ctx, 'w) transport \<Rightarrow> fileSystem \<Rightarrow> 'ctx \<Rightarrow> string \<Rightarrow> OpenMode \<Rightarrow> 'w
    \<Rightarrow> error option \<times> fileSystem \<times> 'w" where
  "Chmod tr fs ctx path perm w =
     (let ((_, err), w) = call tr (c fs) ctx
            (Req_chmod \<lparr>chmod_Request.Path = path, chmod_Request.Mode = perm\<rparr>) w
      in (err, fs, w))"

subsection \<open>Observing the exchanges\<close>

text \<open>
  What a method sends is observed by a transport that keeps a log: \<open>recording tr\<close>
  answers as \<open>tr\<close> does and appends one entry for every invocation of a primitive, with
  the client it was invoked on, the context, the sink as the caller handed it over (none
  for \<^verbatim>\<open>call\<close>) and the request.
\<close>

datatype sink =
    NoSink
  | Sink_dirlist dirlist_Response
  | Sink_open open_Response
  | Sink_stat stat_DefaultResponse
  | Sink_vfs stat_VirtualFSResponse

datatype 'ctx exchange = Exchange Client 'ctx sink request

definition recording :: "('ctx, 'w) transport \<Rightarrow> ('ctx, 'ctx exchange list \<times> 'w) transport" where
  "recording tr =
     \<lparr>call = (\<lambda>cli ctx rq (log, w).
        let (r, w') = call tr cli ctx rq w
        in (r, log @ [Exchange cli ctx NoSink rq], w')),
      Send_dirlist = (\<lambda>cli ctx resp rq (log, w).
        let (r, w') = Send_dirlist tr cli ctx resp rq w
        in (r, log @ [Exchange cli ctx (Sink_dirlist resp) rq], w')),
      Send_open = (\<lambda>cli ctx resp rq (log, w).
        let (r, w') = Send_open tr cli ctx resp rq w
        in (r, log @ [Exchange cli ctx (Sink_open resp) rq], w')),
      Send_stat = (\<lambda>cli ctx resp rq (log, w).
        let (r, w') = Send_stat tr cli ctx resp rq w
        in (r, log @ [Exchange cli ctx (Sink_stat resp) rq], w')),
      Send_vfs = (\<lambda>cli ctx resp rq (log, w).
        let (r, w') = Send_vfs tr cli ctx resp rq w
        in (r, log @ [Exchange cli ctx (Sink_vfs resp) rq], w'))\<rparr>"

text \<open>\<open>map_payload f tr\<close> answers as \<open>tr\<close> does, with the payload of \<^verbatim>\<open>call\<close> rewritten by \<open>f\<close>.\<close>

definition map_payload :: "(genericResponse \<Rightarrow> genericResponse) \<Rightarrow> ('ctx, 'w) transport
    \<Rightarrow> ('ctx, 'w) transport" where
  "map_payload f tr =
     tr\<lparr>call := (\<lambda>cli ctx rq w.
        let ((payload, err), w') = call tr cli ctx rq w in ((f payload, err), w'))\<rparr>"

text \<open>
  A scripted transport for evaluating the methods: every primitive answers with the given
  payload or sink content and the given error, whatever the request, and the world counts
  the round trips.
\<close>

definition scripted :: "genericResponse \<Rightarrow> dirlist_Response \<Rightarrow> open_Response \<Rightarrow> stat_DefaultResponse
    \<Rightarrow> stat_VirtualFSResponse \<Rightarrow> error option \<Rightarrow> ('ctx, nat) transport" where
  "scripted payload d p s v err =
     \<lparr>call = (\<lambda>cli ctx rq n. ((payload, err), Suc n)),
      Send_dirlist = (\<lambda>cli ctx resp rq n. ((d, err), Suc n)),
      Send_open = (\<lambda>cli ctx resp rq n. ((p, err), Suc n)),
      Send_stat = (\<lambda>cli ctx resp rq n. ((s, err), Suc n)),
      Send_vfs = (\<lambda>cli ctx resp rq n. ((v, err), Suc n))\<rparr>"

definition entry_a :: EntryStat where
  "entry_a = \<lparr>EntryName = ''a.root'', EntrySize = 1024, Mtime = 1500000000, EntryMode = 420, Flags = 16\<rparr>"

definition entry_b :: EntryStat where
  "entry_b = \<lparr>EntryName = ''b'', EntrySize = 0, Mtime = 1500000001, EntryMode = 493, Flags = 2\<rparr>"

definition scripted_dirlist :: dirlist_Response where
  "scripted_dirlist = \<lparr>Entries = Some [entry_b, entry_a]\<rparr>"

definition scripted_open :: open_Response where
  "scripted_open =
     \<lparr>FileHandle = [0, 0, 0, 7], Compression = \<lparr>Algorithm = [], BlockSize = 0\<rparr>,
      open_Response.Stat = entry_a\<rparr>"

definition scripted_stat :: stat_DefaultResponse where
  "scripted_stat = \<lparr>stat_DefaultResponse.EntryStat = entry_a\<rparr>"

definition scripted_vfs :: stat_VirtualFSResponse where
  "scripted_vfs = \<lparr>stat_VirtualFSResponse.VirtualFSStat = \<lparr>Capacity = 4096, Usage = 17\<rparr>\<rparr>"

text \<open>
  \<open>answering\<close> succeeds on every request; \<open>failing e\<close> reports \<open>e\<close> on every request and
  still leaves the same decoded content in the sink.
\<close>

definition answering :: "(unit, nat) transport" where
  "answering = scripted [1, 2, 3] scripted_dirlist scripted_open scripted_stat scripted_vfs None"

definition failing :: "error \<Rightarrow> (unit, nat) transport" where
  "failing e = scripted [1, 2, 3] scripted_dirlist scripted_open scripted_stat scripted_vfs (Some e)"

text \<open>The parts of what a method returns: its Go results, the receiver, the world.\<close>

definition rets :: "'r \<times> fileSystem \<times> 'w \<Rightarrow> 'r" where
  "rets out = fst out"

definition receiver :: "'r \<times> fileSystem \<times> 'w \<Rightarrow> fileSystem" where
  "receiver out = fst (snd out)"

definition world :: "'r \<times> fileSystem \<times> 'w \<Rightarrow> 'w" where
  "world out = snd (snd out)"

text \<open>What a primitive answered: the payload or sink content, the error, the world.\<close>

definition answer :: "('a \<times> error option) \<times> 'w \<Rightarrow> 'a" where
  "answer r = fst (fst r)"

definition reported :: "('a \<times> error option) \<times> 'w \<Rightarrow> error option" where
  "reported r = snd (fst r)"

section \<open>Every method is one exchange\<close>

lemmas out_defs = rets_def receiver_def world_def answer_def reported_def

lemma Dirlist_unfold:
  "Dirlist tr fs ctx path w =
     (let r = Send_dirlist tr (c fs) ctx dirlist_Response_zero
                (Req_dirlist (dirlist_NewRequest path)) w
      in ((if reported r \<noteq> None then None else Entries (answer r), reported r), fs, snd r))"
  by (simp add: Dirlist_def out_defs Let_def split: prod.splits)

lemma Open_unfold:
  "Open tr fs ctx path mode options w =
     (let r = Send_open tr (c fs) ctx open_Response_zero
                (Req_open (open_NewRequest path mode options)) w
      in ((if reported r \<noteq> None then None
           else Some \<lparr>file_fs = fs, file_handle = FileHandle (answer r),
                      file_compression = Compression (answer r),
                      file_info = open_Response.Stat (answer r)\<rparr>, reported r), fs, snd r))"
  by (simp add: Open_def out_defs Let_def split: prod.splits)

lemma Stat_unfold:
  "Stat tr fs ctx path w =
     (let r = Send_stat tr (c fs) ctx stat_DefaultResponse_zero
                (Req_stat \<lparr>stat_Request.Path = path, stat_Request.Options = 0\<rparr>) w
      in ((if reported r \<noteq> None then EntryStat_zero
           else stat_DefaultResponse.EntryStat (answer r), reported r), fs, snd r))"
  by (simp add: Stat_def out_defs Let_def split: prod.splits)

lemma VirtualStat_unfold:
  "VirtualStat tr fs ctx path w =
     (let r = Send_vfs tr (c fs) ctx stat_VirtualFSResponse_zero
                (Req_stat \<lparr>stat_Request.Path = path, stat_Request.Options = stat_OptionsVFS\<rparr>) w
      in ((if reported r \<noteq> None then VirtualFSStat_zero
           else stat_VirtualFSResponse.VirtualFSStat (answer r), reported r), fs, snd r))"
  by (simp add: VirtualStat_def out_defs Let_def split: prod.splits)

lemma RemoveFile_unfold:
  "RemoveFile tr fs ctx path w =
     (let r = call tr (c fs) ctx (Req_rm \<lparr>rm_Request.Path = path\<rparr>) w
      in (reported r, fs, snd r))"
  by (simp add: RemoveFile_def out_defs Let_def split: prod.splits)

lemma Truncate_unfold:
  "Truncate tr fs ctx path sz w =
     (let r = call tr (c fs) ctx (Req_truncate \<lparr>truncate_Request.Path = path, Size = sz\<rparr>) w
      in (reported r, fs, snd r))"
  by (simp add: Truncate_def out_defs Let_def split: prod.splits)

lemma Mkdir_unfold:
  "Mkdir tr fs ctx path perm w =
     (let r = call tr (c fs) ctx
                (Req_mkdir \<lparr>mkdir_Request.Path = path, mkdir_Request.Mode = perm,
                            mkdir_Request.Options = 0\<rparr>) w
      in (reported r, fs, snd r))"
  by (simp add: Mkdir_def out_defs Let_def split: prod.splits)

lemma MkdirAll_unfold:
  "MkdirAll tr fs ctx path perm w =
     (let r = call tr (c fs) ctx
                (Req_mkdir \<lparr>mkdir_Request.Path = path, mkdir_Request.Mode = perm,
                            mkdir_Request.Options = mkdir_OptionsMakePath\<rparr>) w
      in (reported r, fs, snd r))"
  by (simp add: MkdirAll_def out_defs Let_def split: prod.splits)

lemma RemoveDir_unfold:
  "RemoveDir tr fs ctx path w =
     (let r = call tr (c fs) ctx (Req_rmdir \<lparr>rmdir_Request.Path = path\<rparr>) w
      in (reported r, fs, snd r))"
  by (simp add: RemoveDir_def out_defs Let_def split: prod.splits)

lemma Rename_unfold:
  "Rename tr fs ctx oldpath newpath w =
     (let r = call tr (c fs) ctx (Req_mv \<lparr>OldPath = oldpath, NewPath = newpath\<rparr>) w
      in (reported r, fs, snd r))"
  by (simp add: Rename_def out_defs Let_def split: prod.splits)

lemma Chmod_unfold:
  "Chmod tr fs ctx path perm w =
     (let r = call tr (c fs) ctx
                (Req_chmod \<lparr>chmod_Request.Path = path, chmod_Request.Mode = perm\<rparr>) w
      in (reported r, fs, snd r))"
  by (simp add: Chmod_def out_defs Let_def split: prod.splits)

lemmas facade_unfold =
  Dirlist_unfold Open_unfold Stat_unfold VirtualStat_unfold RemoveFile_unfold Truncate_unfold
  Mkdir_unfold MkdirAll_unfold RemoveDir_unfold Rename_unfold Chmod_unfold

text \<open>The recording transport: the log grows by the one exchange, the rest is as without it.\<close>

lemma call_recording:
  "call (recording tr) cli ctx rq (log, w) =
     (fst (call tr cli ctx rq w), log @ [Exchange cli ctx NoSink rq], snd (call tr cli ctx rq w))"
  by (simp add: recording_def split: prod.splits)

lemma Send_dirlist_recording:
  "Send_dirlist (recording tr) cli ctx resp rq (log, w) =
     (fst (Send_dirlist tr cli ctx resp rq w), log @ [Exchange cli ctx (Sink_dirlist resp) rq],
      snd (Send_dirlist tr cli ctx resp rq w))"
  by (simp add: recording_def split: prod.splits)

lemma Send_open_recording:
  "Send_open (recording tr) cli ctx resp rq (log, w) =
     (fst (Send_open tr cli ctx resp rq w), log @ [Exchange cli ctx (Sink_open resp) rq],
      snd (Send_open tr cli ctx resp rq w))"
  by (simp add: recording_def split: prod.splits)

lemma Send_stat_recording:
  "Send_stat (recording tr) cli ctx resp rq (log, w) =
     (fst (Send_stat tr cli ctx resp rq w), log @ [Exchange cli ctx (Sink_stat resp) rq],
      snd (Send_stat tr cli ctx resp rq w))"
  by (simp add: recording_def split: prod.splits)

lemma Send_vfs_recording:
  "Send_vfs (recording tr) cli ctx resp rq (log, w) =
     (fst (Send_vfs tr cli ctx resp rq w), log @ [Exchange cli ctx (Sink_vfs resp) rq],
      snd (Send_vfs tr cli ctx resp rq w))"
  by (simp add: recording_def split: prod.splits)

lemmas primitive_recording =
  call_recording Send_dirlist_recording Send_open_recording Send_stat_recording Send_vfs_recording

lemma recording_transparent:
  "rets (Dirlist (recording tr) fs ctx path (log, w)) = rets (Dirlist tr fs ctx path w)"
  "rets (Open (recording tr) fs ctx path mode options (log, w)) = rets (Open tr fs ctx path mode options w)"
  "rets (RemoveFile (recording tr) fs ctx path (log, w)) = rets (RemoveFile tr fs ctx path w)"
  "rets (Truncate (recording tr) fs ctx path sz (log, w)) = rets (Truncate tr fs ctx path sz w)"
  "rets (Stat (recording tr) fs ctx path (log, w)) = rets (Stat tr fs ctx path w)"
  "rets (VirtualStat (recording tr) fs ctx path (log, w)) = rets (VirtualStat tr fs ctx path w)"
  "rets (Mkdir (recording tr) fs ctx path perm (log, w)) = rets (Mkdir tr fs ctx path perm w)"
  "rets (MkdirAll (recording tr) fs ctx path perm (log, w)) = rets (MkdirAll tr fs ctx path perm w)"
  "rets (RemoveDir (recording tr) fs ctx path (log, w)) = rets (RemoveDir tr fs ctx path w)"
  "rets (Rename (recording tr) fs ctx oldpath newpath (log, w)) = rets (Rename tr fs ctx oldpath newpath w)"
  "rets (Chmod (recording tr) fs ctx path perm (log, w)) = rets (Chmod tr fs ctx path perm w)"
  by (simp_all add: facade_unfold primitive_recording out_defs Let_def)

lemma recording_world:
  "snd (world (Dirlist (recording tr) fs ctx path (log, w))) = world (Dirlist tr fs ctx path w)"
  "snd (world (Open (recording tr) fs ctx path mode options (log, w))) = world (Open tr fs ctx path mode options w)"
  "snd (world (RemoveFile (recording tr) fs ctx path (log, w))) = world (RemoveFile tr fs ctx path w)"
  "snd (world (Truncate (recording tr) fs ctx path sz (log, w))) = world (Truncate tr fs ctx path sz w)"
  "snd (world (Stat (recording tr) fs ctx path (log, w))) = world (Stat tr fs ctx path w)"
  "snd (world (VirtualStat (recording tr) fs ctx path (log, w))) = world (VirtualStat tr fs ctx path w)"
  "snd (world (Mkdir (recording tr) fs ctx path perm (log, w))) = world (Mkdir tr fs ctx path perm w)"
  "snd (world (MkdirAll (recording tr) fs ctx path perm (log, w))) = world (MkdirAll tr fs ctx path perm w)"
  "snd (world (RemoveDir (recording tr) fs ctx path (log, w))) = world (RemoveDir tr fs ctx path w)"
  "snd (world (Rename (recording tr) fs ctx oldpath newpath (log, w))) = world (Rename tr fs ctx oldpath newpath w)"
  "snd (world (Chmod (recording tr) fs ctx path perm (log, w))) = world (Chmod tr fs ctx path perm w)"
  by (simp_all add: facade_unfold primitive_recording out_defs Let_def)

text \<open>What the failing transport answers.\<close>

lemma failing_primitives:
  "call (failing e) cli ctx rq n = (([1, 2, 3], Some e), Suc n)"
  "Send_dirlist (failing e) cli ctx d rq n = ((scripted_dirlist, Some e), Suc n)"
  "Send_open (failing e) cli ctx p rq n = ((scripted_open, Some e), Suc n)"
  "Send_stat (failing e) cli ctx s rq n = ((scripted_stat, Some e), Suc n)"
  "Send_vfs (failing e) cli ctx v rq n = ((scripted_vfs, Some e), Suc n)"
  by (simp_all add: failing_def scripted_def)

lemma failing_reports:
  "reported (call (failing e) cli ctx rq n) = Some e"
  "reported (Send_dirlist (failing e) cli ctx d rq n) = Some e"
  "reported (Send_open (failing e) cli ctx p rq n) = Some e"
  "reported (Send_stat (failing e) cli ctx s rq n) = Some e"
  "reported (Send_vfs (failing e) cli ctx v rq n) = Some e"
  by (simp_all add: failing_def scripted_def reported_def)

lemma failing_answers:
  "answer (Send_dirlist (failing e) cli ctx d rq n) = scripted_dirlist"
  "answer (Send_open (failing e) cli ctx p rq n) = scripted_open"
  "answer (Send_stat (failing e) cli ctx s rq n) = scripted_stat"
  "answer (Send_vfs (failing e) cli ctx v rq n) = scripted_vfs"
  by (simp_all add: failing_def scripted_def answer_def)

section \<open>The claims\<close>

text \<open>
  C1. \<^verbatim>\<open>Mkdir(ctx, path, perm)\<close> sends exactly one mkdir request, with the path, the
  permission bits and no option bit; \<^verbatim>\<open>MkdirAll(ctx, path, perm)\<close> sends exactly one
  request too, the same but for the make-path bit, which is set. Whatever the transport
  and the log before the call, the log after it is the old log and that one exchange:
  there is no second request and no request for a component of the path.
\<close>

theorem Mkdir_MkdirAll_one_request:
  "fst (world (Mkdir (recording tr) fs ctx path perm (log, w))) =
     log @ [Exchange (c fs) ctx NoSink
       (Req_mkdir \<lparr>mkdir_Request.Path = path, mkdir_Request.Mode = perm,
                   mkdir_Request.Options = 0\<rparr>)]
   \<and> fst (world (MkdirAll (recording tr) fs ctx path perm (log, w))) =
     log @ [Exchange (c fs) ctx NoSink
       (Req_mkdir \<lparr>mkdir_Request.Path = path, mkdir_Request.Mode = perm,
                   mkdir_Request.Options = mkdir_OptionsMakePath\<rparr>)]
   \<and> \<lparr>mkdir_Request.Path = path, mkdir_Request.Mode = perm,
       mkdir_Request.Options = mkdir_OptionsMakePath\<rparr> =
     \<lparr>mkdir_Request.Path = path, mkdir_Request.Mode = perm, mkdir_Request.Options = 0\<rparr>
       \<lparr>mkdir_Request.Options := 0 OR mkdir_OptionsMakePath\<rparr>
   \<and> mkdir_OptionsMakePath \<noteq> 0"
  by (simp add: Mkdir_unfold MkdirAll_unfold call_recording world_def reported_def Let_def
      mkdir_OptionsMakePath_def)

text \<open>
  C2. \<^verbatim>\<open>Stat\<close> and \<^verbatim>\<open>VirtualStat\<close> send one request of the same type, \<^verbatim>\<open>stat.Request\<close>,
  with the path; the only difference is the options field, which \<^verbatim>\<open>VirtualStat\<close> sets
  to the VFS flag. \<^verbatim>\<open>Stat\<close> hands over a \<^verbatim>\<open>stat.DefaultResponse\<close> sink and returns its
  \<^verbatim>\<open>EntryStat\<close>; \<^verbatim>\<open>VirtualStat\<close> hands over a \<^verbatim>\<open>stat.VirtualFSResponse\<close> sink and returns
  its \<^verbatim>\<open>VirtualFSStat\<close>. Neither result depends on how the transport decodes the other
  kind of response.
\<close>

theorem Stat_VirtualStat_one_request_type:
  "fst (world (Stat (recording tr) fs ctx path (log, w))) =
     log @ [Exchange (c fs) ctx (Sink_stat stat_DefaultResponse_zero)
       (Req_stat \<lparr>stat_Request.Path = path, stat_Request.Options = 0\<rparr>)]
   \<and> fst (world (VirtualStat (recording tr) fs ctx path (log, w))) =
     log @ [Exchange (c fs) ctx (Sink_vfs stat_VirtualFSResponse_zero)
       (Req_stat \<lparr>stat_Request.Path = path, stat_Request.Options = stat_OptionsVFS\<rparr>)]
   \<and> \<lparr>stat_Request.Path = path, stat_Request.Options = stat_OptionsVFS\<rparr> =
     \<lparr>stat_Request.Path = path, stat_Request.Options = 0\<rparr>
       \<lparr>stat_Request.Options := 0 OR stat_OptionsVFS\<rparr>
   \<and> stat_OptionsVFS \<noteq> 0
   \<and> rets (Stat tr fs ctx path w) =
     (let r = Send_stat tr (c fs) ctx stat_DefaultResponse_zero
                (Req_stat \<lparr>stat_Request.Path = path, stat_Request.Options = 0\<rparr>) w
      in if reported r = None then (stat_DefaultResponse.EntryStat (answer r), None)
         else (EntryStat_zero, reported r))
   \<and> rets (VirtualStat tr fs ctx path w) =
     (let r = Send_vfs tr (c fs) ctx stat_VirtualFSResponse_zero
                (Req_stat \<lparr>stat_Request.Path = path, stat_Request.Options = stat_OptionsVFS\<rparr>) w
      in if reported r = None then (stat_VirtualFSResponse.VirtualFSStat (answer r), None)
         else (VirtualFSStat_zero, reported r))
   \<and> Stat (tr\<lparr>Send_vfs := f\<rparr>) fs ctx path w = Stat tr fs ctx path w
   \<and> VirtualStat (tr\<lparr>Send_stat := g\<rparr>) fs ctx path w = VirtualStat tr fs ctx path w"
  by (simp add: Stat_unfold VirtualStat_unfold Send_stat_recording Send_vfs_recording
      world_def rets_def Let_def stat_OptionsVFS_def)

text \<open>
  C3. \<^verbatim>\<open>Open(ctx, path, mode, options)\<close> sends exactly one open request, and the request
  carries \<^verbatim>\<open>mode\<close> and \<^verbatim>\<open>options\<close> as the caller gave them. When the transport reports
  no error, the result is a file made of the receiver and of the three fields of the
  decoded response: the handle, the compression descriptor and the stat snapshot.
\<close>

theorem Open_one_request_file_from_response:
  "fst (world (Open (recording tr) fs ctx path mode options (log, w))) =
     log @ [Exchange (c fs) ctx (Sink_open open_Response_zero)
       (Req_open (open_NewRequest path mode options))]
   \<and> open_NewRequest path mode options =
       \<lparr>open_Request.Path = path, open_Request.Mode = mode, open_Request.Options = options\<rparr>
   \<and> (Send_open tr (c fs) ctx open_Response_zero
         (Req_open (open_NewRequest path mode options)) w = ((resp, None), w')
      \<longrightarrow> Open tr fs ctx path mode options w =
            ((Some \<lparr>file_fs = fs, file_handle = FileHandle resp,
                     file_compression = Compression resp,
                     file_info = open_Response.Stat resp\<rparr>, None), fs, w'))"
  by (simp add: Open_unfold Send_open_recording world_def answer_def reported_def Let_def
      open_NewRequest_def)

theorem Open_one_request_file_from_response_witness:
  "Send_open answering 1 () open_Response_zero
     (Req_open (open_NewRequest ''/a.root'' 420 16)) 0 = ((scripted_open, None), 1)
   \<and> Open answering (FS 1) () ''/a.root'' 420 16 0 =
       ((Some \<lparr>file_fs = FS 1, file_handle = [0, 0, 0, 7],
                file_compression = \<lparr>Algorithm = [], BlockSize = 0\<rparr>,
                file_info = entry_a\<rparr>, None), FS 1, 1)
   \<and> fst (world (Open (recording answering) (FS 1) () ''/a.root'' 420 16 ([], 0))) =
       [Exchange 1 () (Sink_open open_Response_zero)
         (Req_open \<lparr>open_Request.Path = ''/a.root'', open_Request.Mode = 420,
                    open_Request.Options = 16\<rparr>)]"
proof -
  have sent: "Send_open answering 1 () open_Response_zero
      (Req_open (open_NewRequest ''/a.root'' 420 16)) 0 = ((scripted_open, None), 1)"
    by (simp add: answering_def scripted_def)
  from Open_one_request_file_from_response
    [of answering "FS 1" "()" "''/a.root''" 420 16 "[]" 0 scripted_open 1] sent
  show ?thesis
    by (simp add: FS_def scripted_open_def)
qed

text \<open>
  C4, as stated, fails: when the transport reports an error, \<^verbatim>\<open>Stat\<close> returns the
  default-valued \<^verbatim>\<open>xrdfs.EntryStat{}\<close> beside that error.
\<close>

theorem Stat_error_beside_default_EntryStat:
  "snd (rets (Stat (failing NotFound) (FS 1) () ''/missing'' 0)) = Some NotFound
   \<and> fst (rets (Stat (failing NotFound) (FS 1) () ''/missing'' 0)) = EntryStat_zero"
  by (simp add: Stat_unfold failing_def scripted_def rets_def reported_def Let_def)

text \<open>
  C4, amended. The results of every method are one of two shapes. When the transport
  reports no error: the value decoded from the response (nothing, for the seven methods
  that return only an error) and the nil error. When the transport reports an error: that
  error, and in the value slot the nil or zero value of the return type, which is the nil
  slice for \<^verbatim>\<open>Dirlist\<close>, the nil \<^verbatim>\<open>File\<close> for \<^verbatim>\<open>Open\<close>, \<^verbatim>\<open>xrdfs.EntryStat{}\<close> for \<^verbatim>\<open>Stat\<close>
  and \<^verbatim>\<open>xrdfs.VirtualFSStat{}\<close> for \<^verbatim>\<open>VirtualStat\<close>; nothing the sink holds is returned
  beside an error.
\<close>

theorem facade_results_two_shapes:
  "rets (Dirlist tr fs ctx path w) =
     (let r = Send_dirlist tr (c fs) ctx dirlist_Response_zero
                (Req_dirlist (dirlist_NewRequest path)) w
      in if reported r = None then (Entries (answer r), None) else (None, reported r))
   \<and> rets (Open tr fs ctx path mode options w) =
     (let r = Send_open tr (c fs) ctx open_Response_zero
                (Req_open (open_NewRequest path mode options)) w
      in if reported r = None
         then (Some \<lparr>file_fs = fs, file_handle = FileHandle (answer r),
                      file_compression = Compression (answer r),
                      file_info = open_Response.Stat (answer r)\<rparr>, None)
         else (None, reported r))
   \<and> rets (Stat tr fs ctx path w) =
     (let r = Send_stat tr (c fs) ctx stat_DefaultResponse_zero
                (Req_stat \<lparr>stat_Request.Path = path, stat_Request.Options = 0\<rparr>) w
      in if reported r = None then (stat_DefaultResponse.EntryStat (answer r), None)
         else (EntryStat_zero, reported r))
   \<and> rets (VirtualStat tr fs ctx path w) =
     (let r = Send_vfs tr (c fs) ctx stat_VirtualFSResponse_zero
                (Req_stat \<lparr>stat_Request.Path = path, stat_Request.Options = stat_OptionsVFS\<rparr>) w
      in if reported r = None then (stat_VirtualFSResponse.VirtualFSStat (answer r), None)
         else (VirtualFSStat_zero, reported r))
   \<and> rets (RemoveFile tr fs ctx path w) =
     reported (call tr (c fs) ctx (Req_rm \<lparr>rm_Request.Path = path\<rparr>) w)
   \<and> rets (Truncate tr fs ctx path sz w) =
     reported (call tr (c fs) ctx (Req_truncate \<lparr>truncate_Request.Path = path, Size = sz\<rparr>) w)
   \<and> rets (Mkdir tr fs ctx path perm w) =
     reported (call tr (c fs) ctx
       (Req_mkdir \<lparr>mkdir_Request.Path = path, mkdir_Request.Mode = perm,
                   mkdir_Request.Options = 0\<rparr>) w)
   \<and> rets (MkdirAll tr fs ctx path perm w) =
     reported (call tr (c fs) ctx
       (Req_mkdir \<lparr>mkdir_Request.Path = path, mkdir_Request.Mode = perm,
                   mkdir_Request.Options = mkdir_OptionsMakePath\<rparr>) w)
   \<and> rets (RemoveDir tr fs ctx path w) =
     reported (call tr (c fs) ctx (Req_rmdir \<lparr>rmdir_Request.Path = path\<rparr>) w)
   \<and> rets (Rename tr fs ctx oldpath newpath w) =
     reported (call tr (c fs) ctx (Req_mv \<lparr>OldPath = oldpath, NewPath = newpath\<rparr>) w)
   \<and> rets (Chmod tr fs ctx path perm w) =
     reported (call tr (c fs) ctx
       (Req_chmod \<lparr>chmod_Request.Path = path, chmod_Request.Mode = perm\<rparr>) w)"
  by (simp add: facade_unfold rets_def Let_def)

text \<open>
  C5. If the transport reports the cancellation error, the method returns that error and no
  populated entity: \<^verbatim>\<open>Dirlist\<close> the nil slice, \<^verbatim>\<open>Open\<close> the nil \<^verbatim>\<open>File\<close>, \<^verbatim>\<open>Stat\<close> and
  \<^verbatim>\<open>VirtualStat\<close> the zero value of their record, whatever the sink holds by then. The
  seven methods that return only an error return the cancellation error.
\<close>

theorem cancellation_returned_without_entity:
  "(reported (Send_dirlist tr (c fs) ctx dirlist_Response_zero
       (Req_dirlist (dirlist_NewRequest path)) w) = Some Canceled
     \<longrightarrow> rets (Dirlist tr fs ctx path w) = (None, Some Canceled))
   \<and> (reported (Send_open tr (c fs) ctx open_Response_zero
       (Req_open (open_NewRequest path mode options)) w) = Some Canceled
     \<longrightarrow> rets (Open tr fs ctx path mode options w) = (None, Some Canceled))
   \<and> (reported (Send_stat tr (c fs) ctx stat_DefaultResponse_zero
       (Req_stat \<lparr>stat_Request.Path = path, stat_Request.Options = 0\<rparr>) w) = Some Canceled
     \<longrightarrow> rets (Stat tr fs ctx path w) = (EntryStat_zero, Some Canceled))
   \<and> (reported (Send_vfs tr (c fs) ctx stat_VirtualFSResponse_zero
       (Req_stat \<lparr>stat_Request.Path = path, stat_Request.Options = stat_OptionsVFS\<rparr>) w)
       = Some Canceled
     \<longrightarrow> rets (VirtualStat tr fs ctx path w) = (VirtualFSStat_zero, Some Canceled))
   \<and> (reported (call tr (c fs) ctx (Req_rm \<lparr>rm_Request.Path = path\<rparr>) w) = Some Canceled
     \<longrightarrow> rets (RemoveFile tr fs ctx path w) = Some Canceled)
   \<and> (reported (call tr (c fs) ctx
       (Req_truncate \<lparr>truncate_Request.Path = path, Size = sz\<rparr>) w) = Some Canceled
     \<longrightarrow> rets (Truncate tr fs ctx path sz w) = Some Canceled)
   \<and> (reported (call tr (c fs) ctx
       (Req_mkdir \<lparr>mkdir_Request.Path = path, mkdir_Request.Mode = perm,
                   mkdir_Request.Options = 0\<rparr>) w) = Some Canceled
     \<longrightarrow> rets (Mkdir tr fs ctx path perm w) = Some Canceled)
   \<and> (reported (call tr (c fs) ctx
       (Req_mkdir \<lparr>mkdir_Request.Path = path, mkdir_Request.Mode = perm,
                   mkdir_Request.Options = mkdir_OptionsMakePath\<rparr>) w) = Some Canceled
     \<longrightarrow> rets (MkdirAll tr fs ctx path perm w) = Some Canceled)
   \<and> (reported (call tr (c fs) ctx (Req_rmdir \<lparr>rmdir_Request.Path = path\<rparr>) w) = Some Canceled
     \<longrightarrow> rets (RemoveDir tr fs ctx path w) = Some Canceled)
   \<and> (reported (call tr (c fs) ctx (Req_mv \<lparr>OldPath = oldpath, NewPath = newpath\<rparr>) w)
       = Some Canceled
     \<longrightarrow> rets (Rename tr fs ctx oldpath newpath w) = Some Canceled)
   \<and> (reported (call tr (c fs) ctx
       (Req_chmod \<lparr>chmod_Request.Path = path, chmod_Request.Mode = perm\<rparr>) w) = Some Canceled
     \<longrightarrow> rets (Chmod tr fs ctx path perm w) = Some Canceled)"
  by (simp add: facade_unfold rets_def Let_def)

theorem cancellation_returned_without_entity_witness:
  "answer (Send_stat (failing Canceled) 1 () stat_DefaultResponse_zero
     (Req_stat \<lparr>stat_Request.Path = ''/d/a.root'', stat_Request.Options = 0\<rparr>) 0) = scripted_stat
   \<and> reported (Send_stat (failing Canceled) 1 () stat_DefaultResponse_zero
     (Req_stat \<lparr>stat_Request.Path = ''/d/a.root'', stat_Request.Options = 0\<rparr>) 0) = Some Canceled
   \<and> rets (Dirlist (failing Canceled) (FS 1) () ''/d/a.root'' 0) = (None, Some Canceled)
   \<and> rets (Open (failing Canceled) (FS 1) () ''/d/a.root'' 420 16 0) = (None, Some Canceled)
   \<and> rets (Stat (failing Canceled) (FS 1) () ''/d/a.root'' 0) = (EntryStat_zero, Some Canceled)
   \<and> rets (VirtualStat (failing Canceled) (FS 1) () ''/d/a.root'' 0)
       = (VirtualFSStat_zero, Some Canceled)
   \<and> rets (RemoveFile (failing Canceled) (FS 1) () ''/d/a.root'' 0) = Some Canceled
   \<and> rets (Truncate (failing Canceled) (FS 1) () ''/d/a.root'' 8 0) = Some Canceled
   \<and> rets (Mkdir (failing Canceled) (FS 1) () ''/d/a.root'' 420 0) = Some Canceled
   \<and> rets (MkdirAll (failing Canceled) (FS 1) () ''/d/a.root'' 420 0) = Some Canceled
   \<and> rets (RemoveDir (failing Canceled) (FS 1) () ''/d/a.root'' 0) = Some Canceled
   \<and> rets (Rename (failing Canceled) (FS 1) () ''/d/b'' ''/d/a.root'' 0) = Some Canceled
   \<and> rets (Chmod (failing Canceled) (FS 1) () ''/d/a.root'' 420 0) = Some Canceled"
  using cancellation_returned_without_entity
    [of "failing Canceled" "FS 1" "()" "''/d/a.root''" 0 420 16 8 420 "''/d/b''" "''/d/a.root''"]
  by (simp add: failing_reports failing_answers)

text \<open>
  C6. The error a method returns is the error its one invocation of \<^verbatim>\<open>Send\<close> or \<^verbatim>\<open>call\<close>
  reported, nil included: no method wraps, translates or replaces an error, recovers from
  one, or makes one of its own.
\<close>

theorem transport_error_surfaces_unchanged:
  "snd (rets (Dirlist tr fs ctx path w)) =
     reported (Send_dirlist tr (c fs) ctx dirlist_Response_zero
       (Req_dirlist (dirlist_NewRequest path)) w)
   \<and> snd (rets (Open tr fs ctx path mode options w)) =
     reported (Send_open tr (c fs) ctx open_Response_zero
       (Req_open (open_NewRequest path mode options)) w)
   \<and> snd (rets (Stat tr fs ctx path w)) =
     reported (Send_stat tr (c fs) ctx stat_DefaultResponse_zero
       (Req_stat \<lparr>stat_Request.Path = path, stat_Request.Options = 0\<rparr>) w)
   \<and> snd (rets (VirtualStat tr fs ctx path w)) =
     reported (Send_vfs tr (c fs) ctx stat_VirtualFSResponse_zero
       (Req_stat \<lparr>stat_Request.Path = path, stat_Request.Options = stat_OptionsVFS\<rparr>) w)
   \<and> rets (RemoveFile tr fs ctx path w) =
     reported (call tr (c fs) ctx (Req_rm \<lparr>rm_Request.Path = path\<rparr>) w)
   \<and> rets (Truncate tr fs ctx path sz w) =
     reported (call tr (c fs) ctx (Req_truncate \<lparr>truncate_Request.Path = path, Size = sz\<rparr>) w)
   \<and> rets (Mkdir tr fs ctx path perm w) =
     reported (call tr (c fs) ctx
       (Req_mkdir \<lparr>mkdir_Request.Path = path, mkdir_Request.Mode = perm,
                   mkdir_Request.Options = 0\<rparr>) w)
   \<and> rets (MkdirAll tr fs ctx path perm w) =
     reported (call tr (c fs) ctx
       (Req_mkdir \<lparr>mkdir_Request.Path = path, mkdir_Request.Mode = perm,
                   mkdir_Request.Options = mkdir_OptionsMakePath\<rparr>) w)
   \<and> rets (RemoveDir tr fs ctx path w) =
     reported (call tr (c fs) ctx (Req_rmdir \<lparr>rmdir_Request.Path = path\<rparr>) w)
   \<and> rets (Rename tr fs ctx oldpath newpath w) =
     reported (call tr (c fs) ctx (Req_mv \<lparr>OldPath = oldpath, NewPath = newpath\<rparr>) w)
   \<and> rets (Chmod tr fs ctx path perm w) =
     reported (call tr (c fs) ctx
       (Req_chmod \<lparr>chmod_Request.Path = path, chmod_Request.Mode = perm\<rparr>) w)"
  by (simp add: facade_unfold rets_def Let_def)

text \<open>
  C7. \<^verbatim>\<open>Dirlist(ctx, path)\<close> sends exactly one directory-listing request for \<^verbatim>\<open>path\<close>,
  however many entries the answer has. When the transport reports no error, the result is
  the \<^verbatim>\<open>Entries\<close> of the decoded response: the same entries in the same order.
\<close>

theorem Dirlist_one_request_entries_in_order:
  "fst (world (Dirlist (recording tr) fs ctx path (log, w))) =
     log @ [Exchange (c fs) ctx (Sink_dirlist dirlist_Response_zero)
       (Req_dirlist (dirlist_NewRequest path))]
   \<and> dirlist_NewRequest path = \<lparr>dirlist_Request.Path = path\<rparr>
   \<and> (Send_dirlist tr (c fs) ctx dirlist_Response_zero
         (Req_dirlist (dirlist_NewRequest path)) w = ((resp, None), w')
      \<longrightarrow> Dirlist tr fs ctx path w = ((Entries resp, None), fs, w'))"
  by (simp add: Dirlist_unfold Send_dirlist_recording world_def answer_def reported_def Let_def
      dirlist_NewRequest_def)

theorem Dirlist_one_request_entries_in_order_witness:
  "Send_dirlist answering 1 () dirlist_Response_zero
     (Req_dirlist (dirlist_NewRequest ''/d'')) 0 = ((scripted_dirlist, None), 1)
   \<and> Dirlist answering (FS 1) () ''/d'' 0 = ((Some [entry_b, entry_a], None), FS 1, 1)
   \<and> fst (world (Dirlist (recording answering) (FS 1) () ''/d'' ([], 0))) =
       [Exchange 1 () (Sink_dirlist dirlist_Response_zero)
         (Req_dirlist \<lparr>dirlist_Request.Path = ''/d''\<rparr>)]"
proof -
  have sent: "Send_dirlist answering 1 () dirlist_Response_zero
      (Req_dirlist (dirlist_NewRequest ''/d'')) 0 = ((scripted_dirlist, None), 1)"
    by (simp add: answering_def scripted_def)
  from Dirlist_one_request_entries_in_order
    [of answering "FS 1" "()" "''/d''" "[]" 0 scripted_dirlist 1] sent
  show ?thesis
    by (simp add: FS_def scripted_dirlist_def)
qed

text \<open>
  C8. \<^verbatim>\<open>RemoveFile\<close>, \<^verbatim>\<open>Truncate\<close>, \<^verbatim>\<open>RemoveDir\<close>, \<^verbatim>\<open>Rename\<close> and \<^verbatim>\<open>Chmod\<close> each send
  exactly one request, whose fields are the arguments. Each returns the error of that
  exchange and nothing else, and the payload of the answer has no influence: rewriting it
  changes neither the result nor the world.
\<close>

theorem simple_operations_one_request:
  "fst (world (RemoveFile (recording tr) fs ctx path (log, w))) =
     log @ [Exchange (c fs) ctx NoSink (Req_rm \<lparr>rm_Request.Path = path\<rparr>)]
   \<and> fst (world (Truncate (recording tr) fs ctx path sz (log, w))) =
     log @ [Exchange (c fs) ctx NoSink
       (Req_truncate \<lparr>truncate_Request.Path = path, Size = sz\<rparr>)]
   \<and> fst (world (RemoveDir (recording tr) fs ctx path (log, w))) =
     log @ [Exchange (c fs) ctx NoSink (Req_rmdir \<lparr>rmdir_Request.Path = path\<rparr>)]
   \<and> fst (world (Rename (recording tr) fs ctx oldpath newpath (log, w))) =
     log @ [Exchange (c fs) ctx NoSink (Req_mv \<lparr>OldPath = oldpath, NewPath = newpath\<rparr>)]
   \<and> fst (world (Chmod (recording tr) fs ctx path perm (log, w))) =
     log @ [Exchange (c fs) ctx NoSink
       (Req_chmod \<lparr>chmod_Request.Path = path, chmod_Request.Mode = perm\<rparr>)]
   \<and> rets (RemoveFile tr fs ctx path w) =
     reported (call tr (c fs) ctx (Req_rm \<lparr>rm_Request.Path = path\<rparr>) w)
   \<and> rets (Truncate tr fs ctx path sz w) =
     reported (call tr (c fs) ctx (Req_truncate \<lparr>truncate_Request.Path = path, Size = sz\<rparr>) w)
   \<and> rets (RemoveDir tr fs ctx path w) =
     reported (call tr (c fs) ctx (Req_rmdir \<lparr>rmdir_Request.Path = path\<rparr>) w)
   \<and> rets (Rename tr fs ctx oldpath newpath w) =
     reported (call tr (c fs) ctx (Req_mv \<lparr>OldPath = oldpath, NewPath = newpath\<rparr>) w)
   \<and> rets (Chmod tr fs ctx path perm w) =
     reported (call tr (c fs) ctx
       (Req_chmod \<lparr>chmod_Request.Path = path, chmod_Request.Mode = perm\<rparr>) w)
   \<and> RemoveFile (map_payload f tr) fs ctx path w = RemoveFile tr fs ctx path w
   \<and> Truncate (map_payload f tr) fs ctx path sz w = Truncate tr fs ctx path sz w
   \<and> RemoveDir (map_payload f tr) fs ctx path w = RemoveDir tr fs ctx path w
   \<and> Rename (map_payload f tr) fs ctx oldpath newpath w = Rename tr fs ctx oldpath newpath w
   \<and> Chmod (map_payload f tr) fs ctx path perm w = Chmod tr fs ctx path perm w"
  by (simp add: facade_unfold call_recording map_payload_def world_def rets_def reported_def
      Let_def split: prod.splits)

text \<open>
  C9. A \<^verbatim>\<open>fileSystem\<close> is its one field, the reference to the client that \<^verbatim>\<open>FS\<close> put
  there, and every method leaves the receiver as it found it: nothing is kept from one
  call to the next.
\<close>

theorem fileSystem_never_mutated:
  "(fs :: fileSystem) = \<lparr>c = c fs\<rparr>
   \<and> c (FS cli) = cli
   \<and> receiver (Dirlist tr fs ctx path w) = fs
   \<and> receiver (Open tr fs ctx path mode options w) = fs
   \<and> receiver (RemoveFile tr fs ctx path w) = fs
   \<and> receiver (Truncate tr fs ctx path sz w) = fs
   \<and> receiver (Stat tr fs ctx path w) = fs
   \<and> receiver (VirtualStat tr fs ctx path w) = fs
   \<and> receiver (Mkdir tr fs ctx path perm w) = fs
   \<and> receiver (MkdirAll tr fs ctx path perm w) = fs
   \<and> receiver (RemoveDir tr fs ctx path w) = fs
   \<and> receiver (Rename tr fs ctx oldpath newpath w) = fs
   \<and> receiver (Chmod tr fs ctx path perm w) = fs"
  by (simp add: facade_unfold receiver_def FS_def Let_def)

text \<open>
  C10. When the transport reports an error, the value beside it is fixed: \<^verbatim>\<open>Dirlist\<close>
  returns the nil slice, \<^verbatim>\<open>Open\<close> the nil \<^verbatim>\<open>File\<close>, \<^verbatim>\<open>Stat\<close> the zero-valued
  \<^verbatim>\<open>EntryStat\<close> and \<^verbatim>\<open>VirtualStat\<close> the zero-valued \<^verbatim>\<open>VirtualFSStat\<close>, each with the
  reported error, whatever the sink holds.
\<close>

theorem error_branch_values_fixed:
  "(Send_dirlist tr (c fs) ctx dirlist_Response_zero
       (Req_dirlist (dirlist_NewRequest path)) w = ((dresp, Some e), w')
     \<longrightarrow> Dirlist tr fs ctx path w = ((None, Some e), fs, w'))
   \<and> (Send_open tr (c fs) ctx open_Response_zero
       (Req_open (open_NewRequest path mode options)) w = ((oresp, Some e), w')
     \<longrightarrow> Open tr fs ctx path mode options w = ((None, Some e), fs, w'))
   \<and> (Send_stat tr (c fs) ctx stat_DefaultResponse_zero
       (Req_stat \<lparr>stat_Request.Path = path, stat_Request.Options = 0\<rparr>) w = ((sresp, Some e), w')
     \<longrightarrow> Stat tr fs ctx path w = ((EntryStat_zero, Some e), fs, w'))
   \<and> (Send_vfs tr (c fs) ctx stat_VirtualFSResponse_zero
       (Req_stat \<lparr>stat_Request.Path = path, stat_Request.Options = stat_OptionsVFS\<rparr>) w
       = ((vresp, Some e), w')
     \<longrightarrow> VirtualStat tr fs ctx path w = ((VirtualFSStat_zero, Some e), fs, w'))"
  by (simp add: facade_unfold reported_def Let_def)

theorem error_branch_values_fixed_witness:
  "Send_stat (failing PermissionDenied) 1 () stat_DefaultResponse_zero
     (Req_stat \<lparr>stat_Request.Path = ''/d'', stat_Request.Options = 0\<rparr>) 0
     = ((scripted_stat, Some PermissionDenied), 1)
   \<and> Dirlist (failing PermissionDenied) (FS 1) () ''/d'' 0
       = ((None, Some PermissionDenied), FS 1, 1)
   \<and> Open (failing PermissionDenied) (FS 1) () ''/d'' 420 16 0
       = ((None, Some PermissionDenied), FS 1, 1)
   \<and> Stat (failing PermissionDenied) (FS 1) () ''/d'' 0
       = ((EntryStat_zero, Some PermissionDenied), FS 1, 1)
   \<and> VirtualStat (failing PermissionDenied) (FS 1) () ''/d'' 0
       = ((VirtualFSStat_zero, Some PermissionDenied), FS 1, 1)"
  using error_branch_values_fixed
    [of "failing PermissionDenied" "FS 1" "()" "''/d''" 0 scripted_dirlist PermissionDenied 1
        420 16 scripted_open scripted_stat scripted_vfs]
  by (simp add: failing_primitives)

end
